theory Spec2Isabelle
  imports Complex_Main "HOL-Library.Sublist" "HOL-Library.AList"
begin

section \<open>Values the program handles\<close>

text \<open>
  The program is a React component (\<^verbatim>\<open>App\<close>) and a service module with two
  functions, \<^verbatim>\<open>extractPdfMetadata\<close> and \<^verbatim>\<open>interrogateDocuments\<close>, which
  call an external reasoning service. Strings are character lists.

  \<^verbatim>\<open>JSON.parse\<close> yields a JSON value. Numbers are finite doubles and are read as
  reals: the program performs no arithmetic on them. An object keeps its members as
  an association list.
\<close>

datatype json =
    JNull
  | JBool bool
  | JNum real
  | JStr string
  | JArr "json list"
  | JObj "(string \<times> json) list"

text \<open>
  A JavaScript object built at run time: its own properties in insertion order.
  Reading a property is \<open>map_of\<close>; \<open>None\<close> is \<^verbatim>\<open>undefined\<close>. Writing one is
  \<open>AList.update\<close>: an existing property keeps its place and takes the new value,
  a new one is added at the end.
\<close>

type_synonym js_object = "(string \<times> json) list"

definition get :: "js_object \<Rightarrow> string \<Rightarrow> json option" where
  "get obj k = map_of obj k"

text \<open>The decimal rendering of an array index, as used for property keys.\<close>

fun decimal :: "nat \<Rightarrow> string" where
  "decimal n =
     (if n < 10 then [char_of (48 + n)]
      else decimal (n div 10) @ [char_of (48 + n mod 10)])"

text \<open>
  The own enumerable properties of a value, in the order object spread copies them:
  the members of an object, the indexed elements of an array, the indexed
  characters of a string, and nothing for \<^verbatim>\<open>null\<close>, a boolean or a number.
\<close>

fun own_props :: "json \<Rightarrow> (string \<times> json) list" where
  "own_props (JObj kvs) = kvs"
| "own_props (JArr xs) = map (\<lambda>i. (decimal i, xs ! i)) [0..<length xs]"
| "own_props (JStr s) = map (\<lambda>i. (decimal i, JStr [s ! i])) [0..<length s]"
| "own_props JNull = []"
| "own_props (JBool b) = []"
| "own_props (JNum x) = []"

text \<open>
  \<^verbatim>\<open>{ ...obj, ...v }\<close>: every own property of \<open>v\<close> is written onto \<open>obj\<close>, one after
  the other, so a later member of the same name wins.
\<close>

definition spread :: "js_object \<Rightarrow> json \<Rightarrow> js_object" where
  "spread obj v = fold (\<lambda>(k, x). AList.update k x) (own_props v) obj"

text \<open>
  \<open>member v k\<close> is the value of \<^verbatim>\<open>v[k]\<close> for an own property \<open>k\<close> of a parsed
  value \<open>v\<close>: where a key occurs more than once, the last occurrence counts.
\<close>

definition member :: "json \<Rightarrow> string \<Rightarrow> json option" where
  "member v k = map_of (rev (own_props v)) k"

subsection \<open>Files, texts and service responses\<close>

text \<open>
  A browser \<^verbatim>\<open>File\<close>: its name and its bytes, already read and encoded by the
  \<^verbatim>\<open>FileReader\<close> (input documents are readable).
\<close>

record File =
  name :: string
  base64Data :: string

text \<open>
  A text as \<^verbatim>\<open>JSON.parse\<close> sees it. \<open>NotJSON s\<close> is a text \<open>s\<close> on which
  \<^verbatim>\<open>JSON.parse\<close> throws a \<^verbatim>\<open>SyntaxError\<close>; the empty text is \<open>NotJSON []\<close>.
  \<open>JSONText v\<close> is a text that \<^verbatim>\<open>JSON.parse\<close> accepts, with value \<open>v\<close>; such a
  text is never empty. The text \<^verbatim>\<open>"{}"\<close> is \<open>JSONText (JObj [])\<close>.
\<close>

datatype payload = NotJSON string | JSONText json

text \<open>
  What \<^verbatim>\<open>await ai.models.generateContent(...)\<close> gives: a rejection carrying the
  service's error, or a response whose \<^verbatim>\<open>text\<close> is a text or \<^verbatim>\<open>undefined\<close>.
\<close>

datatype 't response = Rejected string | Response "'t option"

datatype error =
    ServiceError string   \<comment> \<open>the rejection of the service call, passed on unchanged\<close>
  | Error string          \<comment> \<open>\<^verbatim>\<open>new Error(message)\<close>\<close>

section \<open>The document extractor\<close>

text \<open>\<^verbatim>\<open>response.text || "{}"\<close>: an undefined or empty text is replaced by \<^verbatim>\<open>"{}"\<close>.\<close>

definition text_or_default :: "payload option \<Rightarrow> payload" where
  "text_or_default t =
     (case t of
        None \<Rightarrow> JSONText (JObj [])
      | Some p \<Rightarrow> if p = NotJSON [] then JSONText (JObj []) else p)"

fun JSON_parse :: "payload \<Rightarrow> error + json" where
  "JSON_parse (NotJSON s) = Inl (Error ''SyntaxError'')"
| "JSON_parse (JSONText v) = Inr v"

text \<open>
  \<^verbatim>\<open>extractPdfMetadata(file)\<close>. The arguments besides the file are what the outside
  world does during the call: the outcome of the service request and the value
  \<^verbatim>\<open>crypto.randomUUID()\<close> hands out. A rejected request is outside the
  \<^verbatim>\<open>try\<close> block and is passed on; a text that does not parse is caught and
  rethrown as \<^verbatim>\<open>Error("Failed to process document")\<close>; otherwise the object
  \<^verbatim>\<open>{ id: crypto.randomUUID(), fileName: file.name, ...data }\<close> is returned.
\<close>

definition extractPdfMetadata :: "File \<Rightarrow> payload response \<Rightarrow> string \<Rightarrow> error + js_object" where
  "extractPdfMetadata file resp uuid =
     (case resp of
        Rejected e \<Rightarrow> Inl (ServiceError e)
      | Response t \<Rightarrow>
          (case JSON_parse (text_or_default t) of
             Inl err \<Rightarrow> Inl (Error ''Failed to process document'')
           | Inr data \<Rightarrow>
               Inr (spread [(''id'', JStr uuid), (''fileName'', JStr (name file))] data)))"

text \<open>
  The \<^verbatim>\<open>responseSchema\<close> sent with the request: an object whose \<^verbatim>\<open>sender\<close>,
  \<^verbatim>\<open>recipient\<close>, \<^verbatim>\<open>content\<close> and \<^verbatim>\<open>summary\<close> are required strings, whose
  \<^verbatim>\<open>date\<close> is a string, \<^verbatim>\<open>topics\<close> an array of strings and \<^verbatim>\<open>confidence\<close> a
  number when present.
\<close>

fun is_string :: "json \<Rightarrow> bool" where
  "is_string (JStr s) = True"
| "is_string v = False"

fun is_number :: "json \<Rightarrow> bool" where
  "is_number (JNum x) = True"
| "is_number v = False"

fun is_string_array :: "json \<Rightarrow> bool" where
  "is_string_array (JArr xs) = list_all is_string xs"
| "is_string_array v = False"

definition required :: "(json \<Rightarrow> bool) \<Rightarrow> json \<Rightarrow> string \<Rightarrow> bool" where
  "required ty v k = (case member v k of None \<Rightarrow> False | Some x \<Rightarrow> ty x)"

definition optional :: "(json \<Rightarrow> bool) \<Rightarrow> json \<Rightarrow> string \<Rightarrow> bool" where
  "optional ty v k = (case member v k of None \<Rightarrow> True | Some x \<Rightarrow> ty x)"

fun is_object :: "json \<Rightarrow> bool" where
  "is_object (JObj kvs) = True"
| "is_object v = False"

definition responseSchema :: "json \<Rightarrow> bool" where
  "responseSchema v =
     (is_object v \<and>
      required is_string v ''sender'' \<and>
      required is_string v ''recipient'' \<and>
      optional is_string v ''date'' \<and>
      required is_string v ''summary'' \<and>
      required is_string v ''content'' \<and>
      optional is_string_array v ''topics'' \<and>
      optional is_number v ''confidence'')"

text \<open>The payloads that parse as the contract shape.\<close>

fun contract_shape :: "payload \<Rightarrow> bool" where
  "contract_shape (NotJSON s) = False"
| "contract_shape (JSONText v) = responseSchema v"

section \<open>The component state\<close>

record progress =
  current :: nat
  total :: nat

datatype tab = upload | chat

datatype role = user | assistant

text \<open>The interface \<^verbatim>\<open>ChatMessage\<close>; its field \<^verbatim>\<open>text\<close> is \<open>text'\<close> here.\<close>

record ChatMessage =
  role :: role
  text' :: string
  timestamp :: int

text \<open>
  The state cells of \<^verbatim>\<open>App\<close> (\<^verbatim>\<open>useState\<close>), as one record. The type of the
  documents is a parameter. TypeScript does not check at run time that the object
  \<^verbatim>\<open>extractPdfMetadata\<close> builds has the declared type, so the upload and delete
  handlers, which only store documents and compare their \<^verbatim>\<open>id\<close>, are modelled on
  the objects really built (\<open>js_object\<close>); the functions that format a document are
  modelled at their declared parameter type (\<open>ExtractedDocument\<close>, below).
\<close>

record 'd App =
  documents :: "'d list"
  isProcessing :: bool
  uploadProgress :: progress
  chatMessages :: "ChatMessage list"
  query :: string
  isChatLoading :: bool
  activeTab :: tab
  searchTerm :: string

text \<open>The initial values of the state cells.\<close>

definition initial :: "'d App" where
  "initial =
     \<lparr>documents = [], isProcessing = False, uploadProgress = \<lparr>current = 0, total = 0\<rparr>,
      chatMessages = [], query = [], isChatLoading = False, activeTab = upload, searchTerm = []\<rparr>"

section \<open>The batch extraction controller\<close>

text \<open>
  One file of an upload event, with what the outside world does while it is
  extracted: the outcome of the service request and the UUID handed out.
\<close>

record attempt =
  upload_file :: File
  service_reply :: "payload response"
  random_uuid :: string

text \<open>
  The variables of a run of \<^verbatim>\<open>handleFileUpload\<close>: the component state, the local
  list \<^verbatim>\<open>newDocs\<close>, the files for which \<^verbatim>\<open>extractPdfMetadata\<close> has been called
  so far, and the lines written with \<^verbatim>\<open>console.error\<close>.
\<close>

record upload_run =
  app :: "js_object App"
  newDocs :: "js_object list"
  attempted :: "File list"
  console :: "(string \<times> error) list"

text \<open>
  The body of the \<^verbatim>\<open>for\<close> loop at index \<open>i\<close>. On success the document is pushed
  and the progress set to \<open>i + 1\<close>; both statements are inside the \<^verbatim>\<open>try\<close>, after
  the \<^verbatim>\<open>await\<close>. On failure the \<^verbatim>\<open>catch\<close> block only logs.
\<close>

definition upload_iteration :: "nat \<Rightarrow> attempt \<Rightarrow> upload_run \<Rightarrow> upload_run" where
  "upload_iteration i a r =
     (let r1 = r\<lparr>attempted := attempted r @ [upload_file a]\<rparr> in
      case extractPdfMetadata (upload_file a) (service_reply a) (random_uuid a) of
        Inr doc \<Rightarrow>
          r1\<lparr>newDocs := newDocs r1 @ [doc],
             app := (app r1)\<lparr>uploadProgress := (uploadProgress (app r1))\<lparr>current := i + 1\<rparr>\<rparr>\<rparr>
      | Inl e \<Rightarrow>
          r1\<lparr>console := console r1 @ [(''Error processing '' @ name (upload_file a) @ '':'', e)]\<rparr>)"

text \<open>\<^verbatim>\<open>for (let i = 0; i < files.length; i++)\<close>, from index \<open>i\<close> over the files left.\<close>

fun upload_loop :: "nat \<Rightarrow> attempt list \<Rightarrow> upload_run \<Rightarrow> upload_run" where
  "upload_loop i [] r = r"
| "upload_loop i (a # as) r = upload_loop (Suc i) as (upload_iteration i a r)"

text \<open>The run after each iteration of the loop, in order.\<close>

fun upload_trace :: "nat \<Rightarrow> attempt list \<Rightarrow> upload_run \<Rightarrow> upload_run list" where
  "upload_trace i [] r = []"
| "upload_trace i (a # as) r = upload_iteration i a r # upload_trace (Suc i) as (upload_iteration i a r)"

text \<open>The run when the loop is entered: the three state updates before it, and an empty \<^verbatim>\<open>newDocs\<close>.\<close>

definition upload_start :: "js_object App \<Rightarrow> attempt list \<Rightarrow> upload_run" where
  "upload_start st files =
     \<lparr>app = st\<lparr>isProcessing := True,
                uploadProgress := \<lparr>current = 0, total = length files\<rparr>,
                activeTab := upload\<rparr>,
      newDocs = [], attempted = [], console = []\<rparr>"

text \<open>
  \<^verbatim>\<open>handleFileUpload\<close>: nothing happens for an absent or empty file list; otherwise
  the loop runs and then \<^verbatim>\<open>setDocuments(prev => [...prev, ...newDocs])\<close> and
  \<^verbatim>\<open>setIsProcessing(false)\<close>. Every exception of the loop body is caught, so the
  handler always completes.
\<close>

definition handleFileUpload :: "js_object App \<Rightarrow> attempt list \<Rightarrow> js_object App" where
  "handleFileUpload st files =
     (if files = [] then st
      else
        let r = upload_loop 0 files (upload_start st files)
        in (app r)\<lparr>documents := documents (app r) @ newDocs r, isProcessing := False\<rparr>)"

text \<open>
  The values of the progress counter that the component goes through during an
  upload: the one set before the loop, then the one after each iteration.
\<close>

definition progress_trace :: "js_object App \<Rightarrow> attempt list \<Rightarrow> progress list" where
  "progress_trace st files =
     map (\<lambda>r. uploadProgress (app r)) (upload_start st files # upload_trace 0 files (upload_start st files))"

text \<open>
  For comparison with the loop: the documents of the attempts whose extraction
  succeeds, in the order of the input.
\<close>

definition successes :: "attempt list \<Rightarrow> js_object list" where
  "successes files =
     concat (map (\<lambda>a. case extractPdfMetadata (upload_file a) (service_reply a) (random_uuid a) of
                         Inr doc \<Rightarrow> [doc] | Inl e \<Rightarrow> []) files)"

definition succeeds :: "attempt \<Rightarrow> bool" where
  "succeeds a = (case extractPdfMetadata (upload_file a) (service_reply a) (random_uuid a) of
                   Inr doc \<Rightarrow> True | Inl e \<Rightarrow> False)"

text \<open>\<^verbatim>\<open>deleteDocument\<close>: \<^verbatim>\<open>prev.filter(d => d.id !== id)\<close>.\<close>

definition deleteDocument :: "string \<Rightarrow> js_object App \<Rightarrow> js_object App" where
  "deleteDocument i st = st\<lparr>documents := filter (\<lambda>d. get d ''id'' \<noteq> Some (JStr i)) (documents st)\<rparr>"

section \<open>Documents at their declared type\<close>

text \<open>The interface \<^verbatim>\<open>ExtractedDocument\<close>; its field \<^verbatim>\<open>id\<close> is \<open>id'\<close> here.\<close>

record ExtractedDocument =
  id' :: string
  fileName :: string
  sender :: string
  recipient :: string
  date :: string
  summary :: string
  content :: string
  topics :: "string list"
  confidence :: real

subsection \<open>The corpus context builder and the interrogation engine\<close>

text \<open>
  \<^verbatim>\<open>Array.prototype.join\<close> on an array of strings: the result starts empty; for each
  element, the separator is added first unless the element is the first.
\<close>

fun join_loop :: "string \<Rightarrow> nat \<Rightarrow> string list \<Rightarrow> string \<Rightarrow> string" where
  "join_loop sep k [] R = R"
| "join_loop sep k (x # xs) R = join_loop sep (Suc k) xs ((if k > 0 then R @ sep else R) @ x)"

definition join :: "string \<Rightarrow> string list \<Rightarrow> string" where
  "join sep xs = join_loop sep 0 xs []"

definition doc_block :: "ExtractedDocument \<Rightarrow> string" where
  "doc_block doc =
     ''[Document: '' @ fileName doc @ '', Sender: '' @ sender doc @ '', Recipient: '' @ recipient doc
       @ '', Date: '' @ date doc @ '']\<newline>Content: '' @ content doc"

definition separator :: string where
  "separator = ''\<newline>\<newline>---\<newline>\<newline>''"

definition context_block :: "ExtractedDocument list \<Rightarrow> string" where
  "context_block docs = join separator (map doc_block docs)"

text \<open>
  For comparison with \<open>context_block\<close>: the context as the specification words it.
  A block is the header
  \<^verbatim>\<open>[Document: <fileName>, Sender: <sender>, Recipient: <recipient>, Date: <date>]\<close>,
  a gap, and \<^verbatim>\<open>Content: <content>\<close>; the specification writes the gap as one
  space. The context is empty for an empty corpus, otherwise one block per document
  in corpus order with the separator between neighbours.
\<close>

definition spec_block :: "string \<Rightarrow> ExtractedDocument \<Rightarrow> string" where
  "spec_block gap d =
     ''[Document: '' @ fileName d @ '', Sender: '' @ sender d @ '', Recipient: '' @ recipient d
       @ '', Date: '' @ date d @ '']'' @ gap @ ''Content: '' @ content d"

fun spec_context_block :: "string \<Rightarrow> ExtractedDocument list \<Rightarrow> string" where
  "spec_context_block gap [] = []"
| "spec_context_block gap [d] = spec_block gap d"
| "spec_context_block gap (d # e # ds) = spec_block gap d @ separator @ spec_context_block gap (e # ds)"

definition systemPrompt :: "string \<Rightarrow> string" where
  \<open>systemPrompt ctx =
     ''You are a professional assistant analyzing a collection of uploaded documents. \<newline>''
     @ ''  Below is the content of all currently uploaded documents. \<newline>''
     @ ''  Your job is to answer the user's questions accurately based ONLY on the provided context. \<newline>''
     @ ''  If the user asks "What did Jane say?", find all documents where Jane is the sender and synthesize her messages.\<newline>''
     @ ''  \<newline>''
     @ ''  CONTEXT:\<newline>''
     @ ''  '' @ ctx\<close>

text \<open>The request sent to the service: the role-tagged turns and the system instruction.\<close>

record request =
  model :: string
  contents :: "(string \<times> string) list"
  systemInstruction :: string

definition interrogation_request :: "string \<Rightarrow> ExtractedDocument list \<Rightarrow> (role \<times> string) list \<Rightarrow> request" where
  "interrogation_request q docs history =
     \<lparr>model = ''gemini-3-flash-preview'',
      contents = map (\<lambda>(r, t). (if r = user then ''user'' else ''model'', t)) history @ [(''user'', q)],
      systemInstruction = systemPrompt (context_block docs)\<rparr>"

definition fallback_answer :: string where
  \<open>fallback_answer = ''I couldn't find any information regarding that query in the provided documents.''\<close>

text \<open>
  \<^verbatim>\<open>interrogateDocuments(query, documents, history)\<close>; the last argument is the
  outcome of the service request for \<open>interrogation_request q docs history\<close>. A
  rejection is passed on; otherwise \<^verbatim>\<open>response.text || fallback\<close> is returned.
\<close>

definition interrogateDocuments ::
  "string \<Rightarrow> ExtractedDocument list \<Rightarrow> (role \<times> string) list \<Rightarrow> string response \<Rightarrow> error + string" where
  "interrogateDocuments q docs history resp =
     (case resp of
        Rejected e \<Rightarrow> Inl (ServiceError e)
      | Response t \<Rightarrow>
          Inr (case t of None \<Rightarrow> fallback_answer | Some s \<Rightarrow> if s = [] then fallback_answer else s))"

subsection \<open>Sending a chat message\<close>

text \<open>
  \<^verbatim>\<open>String.prototype.trim\<close> strips white space and line terminators from both
  ends; among the characters with a code below 256 these are 9 to 13, 32 and 160.
\<close>

definition is_whitespace :: "char \<Rightarrow> bool" where
  "is_whitespace c = (of_char c \<in> set [9, 10, 11, 12, 13, 32, 160 :: nat])"

definition trim :: "string \<Rightarrow> string" where
  "trim s = rev (dropWhile is_whitespace (rev (dropWhile is_whitespace s)))"

text \<open>
  \<^verbatim>\<open>handleSendMessage\<close>. \<open>t1\<close> and \<open>t2\<close> are the two readings of the clock
  (\<^verbatim>\<open>new Date()\<close>), \<open>resp\<close> the outcome of the service request. The request uses
  the query and the messages as they were when the handler started. A failure is
  caught and logged; the \<^verbatim>\<open>finally\<close> block clears the loading flag.
\<close>

definition handleSendMessage ::
  "ExtractedDocument App \<Rightarrow> int \<Rightarrow> string response \<Rightarrow> int \<Rightarrow> ExtractedDocument App" where
  "handleSendMessage st t1 resp t2 =
     (if trim (query st) = [] \<or> isChatLoading st then st
      else
        let userMessage = \<lparr>role = user, text' = query st, timestamp = t1\<rparr>;
            st1 = st\<lparr>chatMessages := chatMessages st @ [userMessage], query := [], isChatLoading := True\<rparr>;
            st2 = (case interrogateDocuments (query st) (documents st)
                          (map (\<lambda>m. (role m, text' m)) (chatMessages st)) resp of
                     Inr answer \<Rightarrow>
                       st1\<lparr>chatMessages := chatMessages st1
                              @ [\<lparr>role = assistant, text' = answer, timestamp = t2\<rparr>]\<rparr>
                   | Inl e \<Rightarrow> st1)
        in st2\<lparr>isChatLoading := False\<rparr>)"

subsection \<open>Exporting a document\<close>

text \<open>
  \<^verbatim>\<open>s.replace(pat, rep)\<close> for a non-empty string pattern and a replacement without
  \<^verbatim>\<open>$\<close> patterns: the first occurrence is replaced.
\<close>

fun replace_first :: "string \<Rightarrow> string \<Rightarrow> string \<Rightarrow> string" where
  "replace_first pat rep [] = []"
| "replace_first pat rep (c # cs) =
     (if prefix pat (c # cs) then rep @ drop (length pat) (c # cs)
      else c # replace_first pat rep cs)"

text \<open>The text that \<^verbatim>\<open>downloadDocument\<close> renders.\<close>

definition download_text :: "ExtractedDocument \<Rightarrow> string" where
  "download_text doc =
     ''FILENAME: '' @ fileName doc @ ''\<newline>SENDER: '' @ sender doc @ ''\<newline>RECIPIENT: '' @ recipient doc
       @ ''\<newline>DATE: '' @ date doc @ ''\<newline>SUMMARY: '' @ summary doc
       @ ''\<newline>\<newline>CONTENT:\<newline>'' @ content doc"

text \<open>The file that \<^verbatim>\<open>downloadDocument\<close> offers: its name and its text.\<close>

record download =
  download_name :: string
  blob :: string

definition downloadDocument :: "ExtractedDocument \<Rightarrow> download" where
  "downloadDocument doc =
     \<lparr>download_name = replace_first ''.pdf'' [] (fileName doc) @ ''_extracted.txt'',
      blob = download_text doc\<rparr>"

section \<open>Properties of the document extractor\<close>






text \<open>
  C3, as stated, does not hold: a response that parses as JSON but is not of the
  contract shape (here an object with a \<^verbatim>\<open>sender\<close> only) makes the extraction
  succeed, and the partial record built from it is returned.
\<close>

theorem extractPdfMetadata_partial_record:
  "\<not> contract_shape (JSONText (JObj [(''sender'', JStr ''Jane'')]))
   \<and> extractPdfMetadata \<lparr>name = ''a.pdf'', base64Data = ''JVBERi0=''\<rparr>
        (Response (Some (JSONText (JObj [(''sender'', JStr ''Jane'')])))) ''u1''
      = Inr [(''id'', JStr ''u1''), (''fileName'', JStr ''a.pdf''), (''sender'', JStr ''Jane'')]"
  by (simp add: extractPdfMetadata_def text_or_default_def spread_def responseSchema_def
        required_def member_def)

text \<open>
  C3, amended: \<open>extractPdfMetadata\<close> fails exactly when the service call itself
  fails or the response text is not empty and does not parse as JSON. A failed
  service call passes the service's error on, a text that does not parse gives the
  error \<^verbatim>\<open>Failed to process document\<close>, and in both cases no document is returned.
\<close>

theorem extractPdfMetadata_fails_iff:
  "((\<exists>e. extractPdfMetadata file resp uuid = Inl e) \<longleftrightarrow>
      (\<exists>e. resp = Rejected e) \<or> (\<exists>s. s \<noteq> [] \<and> resp = Response (Some (NotJSON s))))
   \<and> extractPdfMetadata file (Rejected e) uuid = Inl (ServiceError e)
   \<and> (s \<noteq> [] \<longrightarrow> extractPdfMetadata file (Response (Some (NotJSON s))) uuid
          = Inl (Error ''Failed to process document''))
   \<and> (\<forall>e. extractPdfMetadata file resp uuid = Inl e \<longrightarrow>
          (\<forall>doc. extractPdfMetadata file resp uuid \<noteq> Inr doc))"
proof -
  have a: "(\<exists>e. extractPdfMetadata file resp uuid = Inl e) \<longleftrightarrow>
      (\<exists>e. resp = Rejected e) \<or> (\<exists>s. s \<noteq> [] \<and> resp = Response (Some (NotJSON s)))"
  proof (cases resp)
    case (Rejected x)
    then show ?thesis by (simp add: extractPdfMetadata_def)
  next
    case (Response t)
    show ?thesis
    proof (cases t)
      case None
      with Response show ?thesis by (simp add: extractPdfMetadata_def text_or_default_def)
    next
      case (Some p)
      with Response show ?thesis
        by (cases p) (auto simp: extractPdfMetadata_def text_or_default_def)
    qed
  qed
  have b: "extractPdfMetadata file (Rejected e) uuid = Inl (ServiceError e)"
    by (simp add: extractPdfMetadata_def)
  have c: "s \<noteq> [] \<longrightarrow> extractPdfMetadata file (Response (Some (NotJSON s))) uuid
          = Inl (Error ''Failed to process document'')"
    by (simp add: extractPdfMetadata_def text_or_default_def)
  show ?thesis using a b c by simp
qed

text \<open>C3, amended, at a response whose text is prose instead of JSON.\<close>

theorem extractPdfMetadata_fails_iff_witness:
  "(\<exists>e. extractPdfMetadata \<lparr>name = ''a.pdf'', base64Data = ''JVBERi0=''\<rparr>
            (Response (Some (NotJSON ''Sorry, I cannot read this file.''))) ''u1'' = Inl e)
   \<and> ''Sorry, I cannot read this file.'' \<noteq> []
   \<and> extractPdfMetadata \<lparr>name = ''a.pdf'', base64Data = ''JVBERi0=''\<rparr>
        (Response (Some (NotJSON ''Sorry, I cannot read this file.''))) ''u1''
      = Inl (Error ''Failed to process document'')"
  using extractPdfMetadata_fails_iff
    [of "\<lparr>name = ''a.pdf'', base64Data = ''JVBERi0=''\<rparr>"
        "Response (Some (NotJSON ''Sorry, I cannot read this file.''))" "''u1''" _
        "''Sorry, I cannot read this file.''"]
  by simp

section \<open>Properties of the batch extraction controller\<close>

lemma attempted_upload_iteration:
  "attempted (upload_iteration i a r) = attempted r @ [upload_file a]"
  by (simp add: upload_iteration_def Let_def split: sum.splits)

lemma newDocs_upload_iteration:
  "newDocs (upload_iteration i a r) = newDocs r @ successes [a]"
  by (simp add: upload_iteration_def successes_def Let_def split: sum.splits)

lemma documents_upload_iteration:
  "documents (app (upload_iteration i a r)) = documents (app r)"
  by (simp add: upload_iteration_def Let_def split: sum.splits)

lemma successes_Cons: "successes (a # as) = successes [a] @ successes as"
  by (simp add: successes_def)

lemma attempted_upload_loop:
  "attempted (upload_loop i files r) = attempted r @ map upload_file files"
  by (induction files arbitrary: i r) (simp_all add: attempted_upload_iteration)

lemma newDocs_upload_loop:
  "newDocs (upload_loop i files r) = newDocs r @ successes files"
proof (induction files arbitrary: i r)
  case Nil
  then show ?case by (simp add: successes_def)
next
  case (Cons a as)
  have "newDocs (upload_loop i (a # as) r) = (newDocs r @ successes [a]) @ successes as"
    by (simp add: Cons.IH newDocs_upload_iteration)
  then show ?case by (simp add: successes_Cons [of a as])
qed

lemma documents_upload_loop:
  "documents (app (upload_loop i files r)) = documents (app r)"
  by (induction files arbitrary: i r) (simp_all add: documents_upload_iteration)

lemma documents_upload_trace:
  "list_all (\<lambda>r'. documents (app r') = documents (app r)) (upload_trace i files r)"
proof (induction files arbitrary: i r)
  case Nil
  then show ?case by simp
next
  case (Cons a as)
  from Cons.IH [of "upload_iteration i a r" "Suc i"]
  show ?case by (simp add: documents_upload_iteration)
qed

lemma upload_loop_last_trace:
  "upload_loop i files r = last (r # upload_trace i files r)"
  by (induction files arbitrary: i r) simp_all

lemma length_upload_trace: "length (upload_trace i files r) = length files"
  by (induction files arbitrary: i r) simp_all

lemma length_successes: "length (successes files) \<le> length files"
  by (induction files) (simp_all add: successes_def split: sum.splits)

lemma length_successes_eq:
  "length (successes files) = length files \<longleftrightarrow> list_all succeeds files"
proof (induction files)
  case Nil
  then show ?case by (simp add: successes_def)
next
  case (Cons a as)
  have le: "length (successes as) \<le> length as" by (rule length_successes)
  show ?case
  proof (cases "succeeds a")
    case True
    then have "length (successes (a # as)) = Suc (length (successes as))"
      by (simp add: successes_def succeeds_def split: sum.splits)
    with Cons True show ?thesis by simp
  next
    case False
    then have "length (successes (a # as)) = length (successes as)"
      by (simp add: successes_def succeeds_def split: sum.splits)
    with le False show ?thesis by simp
  qed
qed

lemma documents_handleFileUpload:
  "documents (handleFileUpload st files) = documents st @ successes files"
proof (cases "files = []")
  case True
  then show ?thesis by (simp add: handleFileUpload_def successes_def)
next
  case False
  then show ?thesis
    by (simp add: handleFileUpload_def Let_def documents_upload_loop newDocs_upload_loop
          upload_start_def)
qed

text \<open>
  C4: a failed extraction does not end the batch. Whatever the outcomes,
  \<open>extractPdfMetadata\<close> is called for every file, in input order; the list
  \<open>newDocs\<close> at the end of the loop holds exactly the documents of the successful
  extractions, in input order, and these are what the handler appends to the corpus;
  their number is at most the number of files, and equals it exactly when every
  extraction succeeded. The handler has no failing outcome: every exception of the
  loop body is caught, and after a non-empty batch the processing flag is cleared.
\<close>

theorem handleFileUpload_isolates_failures:
  "attempted (upload_loop 0 files (upload_start st files)) = map upload_file files
   \<and> newDocs (upload_loop 0 files (upload_start st files)) = successes files
   \<and> documents (handleFileUpload st files) = documents st @ successes files
   \<and> length (successes files) \<le> length files
   \<and> (length (successes files) = length files \<longleftrightarrow> list_all succeeds files)
   \<and> (files \<noteq> [] \<longrightarrow> isProcessing (handleFileUpload st files) = False)"
proof -
  have 3: "files \<noteq> [] \<longrightarrow> isProcessing (handleFileUpload st files) = False"
    by (simp add: handleFileUpload_def Let_def)
  have 1: "attempted (upload_loop 0 files (upload_start st files)) = map upload_file files"
    by (simp add: attempted_upload_loop upload_start_def)
  have 2: "newDocs (upload_loop 0 files (upload_start st files)) = successes files"
    by (simp add: newDocs_upload_loop upload_start_def)
  from 1 2 3 documents_handleFileUpload length_successes length_successes_eq
  show ?thesis by blast
qed

text \<open>
  C4 at a batch of three files whose second extraction is rejected by the service:
  all three are attempted and the first and the third document are kept.
\<close>

theorem handleFileUpload_isolates_failures_witness:
  "let files = [\<lparr>upload_file = \<lparr>name = ''a.pdf'', base64Data = ''JVBERi0=''\<rparr>,
                 service_reply = Response (Some (JSONText (JObj [(''content'', JStr ''See you on Monday.'')]))),
                 random_uuid = ''u1''\<rparr>,
                \<lparr>upload_file = \<lparr>name = ''b.pdf'', base64Data = ''JVBERi0=''\<rparr>,
                 service_reply = Rejected ''503'', random_uuid = ''u2''\<rparr>,
                \<lparr>upload_file = \<lparr>name = ''c.pdf'', base64Data = ''JVBERi0=''\<rparr>,
                 service_reply = Response (Some (JSONText (JObj [(''content'', JStr ''Monday is fine.'')]))),
                 random_uuid = ''u3''\<rparr>]
   in attempted (upload_loop 0 files (upload_start initial files))
        = [\<lparr>name = ''a.pdf'', base64Data = ''JVBERi0=''\<rparr>,
           \<lparr>name = ''b.pdf'', base64Data = ''JVBERi0=''\<rparr>,
           \<lparr>name = ''c.pdf'', base64Data = ''JVBERi0=''\<rparr>]
      \<and> documents (handleFileUpload initial files)
        = [[(''id'', JStr ''u1''), (''fileName'', JStr ''a.pdf''), (''content'', JStr ''See you on Monday.'')],
           [(''id'', JStr ''u3''), (''fileName'', JStr ''c.pdf''), (''content'', JStr ''Monday is fine.'')]]
      \<and> files \<noteq> []
      \<and> isProcessing (handleFileUpload initial files) = False"
  using handleFileUpload_isolates_failures [of
          "[\<lparr>upload_file = \<lparr>name = ''a.pdf'', base64Data = ''JVBERi0=''\<rparr>,
                 service_reply = Response (Some (JSONText (JObj [(''content'', JStr ''See you on Monday.'')]))),
                 random_uuid = ''u1''\<rparr>,
                \<lparr>upload_file = \<lparr>name = ''b.pdf'', base64Data = ''JVBERi0=''\<rparr>,
                 service_reply = Rejected ''503'', random_uuid = ''u2''\<rparr>,
                \<lparr>upload_file = \<lparr>name = ''c.pdf'', base64Data = ''JVBERi0=''\<rparr>,
                 service_reply = Response (Some (JSONText (JObj [(''content'', JStr ''Monday is fine.'')]))),
                 random_uuid = ''u3''\<rparr>]" initial]
  by (simp add: successes_def extractPdfMetadata_def text_or_default_def spread_def initial_def)

text \<open>
  C10: while the loop runs, the corpus is the one the handler started with: it is
  so when the loop is entered and after each iteration, the last of which gives the
  run the loop ends with. The single update after the loop appends the successful
  extractions, in input order, after the prior documents.
\<close>

theorem handleFileUpload_appends_once:
  "list_all (\<lambda>r. documents (app r) = documents st)
      (upload_start st files # upload_trace 0 files (upload_start st files))
   \<and> upload_loop 0 files (upload_start st files)
        = last (upload_start st files # upload_trace 0 files (upload_start st files))
   \<and> length (upload_trace 0 files (upload_start st files)) = length files
   \<and> documents (handleFileUpload st files) = documents st @ successes files"
proof -
  have s: "documents (app (upload_start st files)) = documents st"
    by (simp add: upload_start_def)
  have 1: "list_all (\<lambda>r. documents (app r) = documents st)
      (upload_start st files # upload_trace 0 files (upload_start st files))"
    using documents_upload_trace [of "upload_start st files" 0 files] s by simp
  from 1 upload_loop_last_trace length_upload_trace documents_handleFileUpload
  show ?thesis by blast
qed

text \<open>C10 at the same batch, uploaded into a corpus that already holds one document.\<close>

theorem handleFileUpload_appends_once_witness:
  "let st = initial\<lparr>documents := [[(''id'', JStr ''u0''), (''fileName'', JStr ''z.pdf'')]]\<rparr>;
       files = [\<lparr>upload_file = \<lparr>name = ''a.pdf'', base64Data = ''JVBERi0=''\<rparr>,
                 service_reply = Response (Some (JSONText (JObj [(''content'', JStr ''See you on Monday.'')]))),
                 random_uuid = ''u1''\<rparr>,
                \<lparr>upload_file = \<lparr>name = ''b.pdf'', base64Data = ''JVBERi0=''\<rparr>,
                 service_reply = Rejected ''503'', random_uuid = ''u2''\<rparr>,
                \<lparr>upload_file = \<lparr>name = ''c.pdf'', base64Data = ''JVBERi0=''\<rparr>,
                 service_reply = Response (Some (JSONText (JObj [(''content'', JStr ''Monday is fine.'')]))),
                 random_uuid = ''u3''\<rparr>]
   in list_all (\<lambda>r. documents (app r) = [[(''id'', JStr ''u0''), (''fileName'', JStr ''z.pdf'')]])
        (upload_start st files # upload_trace 0 files (upload_start st files))
      \<and> documents (handleFileUpload st files)
        = [[(''id'', JStr ''u0''), (''fileName'', JStr ''z.pdf'')],
           [(''id'', JStr ''u1''), (''fileName'', JStr ''a.pdf''), (''content'', JStr ''See you on Monday.'')],
           [(''id'', JStr ''u3''), (''fileName'', JStr ''c.pdf''), (''content'', JStr ''Monday is fine.'')]]"
  using handleFileUpload_appends_once [of
          "initial\<lparr>documents := [[(''id'', JStr ''u0''), (''fileName'', JStr ''z.pdf'')]]\<rparr>"
          "[\<lparr>upload_file = \<lparr>name = ''a.pdf'', base64Data = ''JVBERi0=''\<rparr>,
                 service_reply = Response (Some (JSONText (JObj [(''content'', JStr ''See you on Monday.'')]))),
                 random_uuid = ''u1''\<rparr>,
                \<lparr>upload_file = \<lparr>name = ''b.pdf'', base64Data = ''JVBERi0=''\<rparr>,
                 service_reply = Rejected ''503'', random_uuid = ''u2''\<rparr>,
                \<lparr>upload_file = \<lparr>name = ''c.pdf'', base64Data = ''JVBERi0=''\<rparr>,
                 service_reply = Response (Some (JSONText (JObj [(''content'', JStr ''Monday is fine.'')]))),
                 random_uuid = ''u3''\<rparr>]"]
  by (simp add: successes_def extractPdfMetadata_def text_or_default_def spread_def initial_def)

subsection \<open>The progress counter\<close>

lemma upload_loop_snoc:
  "upload_loop i (files @ [a]) r = upload_iteration (i + length files) a (upload_loop i files r)"
  by (induction files arbitrary: i r) simp_all

lemma current_upload_iteration:
  "current (uploadProgress (app (upload_iteration i a r)))
     = (if succeeds a then i + 1 else current (uploadProgress (app r)))"
  by (simp add: upload_iteration_def succeeds_def Let_def split: sum.splits)

lemma total_upload_iteration:
  "total (uploadProgress (app (upload_iteration i a r))) = total (uploadProgress (app r))"
  by (simp add: upload_iteration_def Let_def split: sum.splits)

lemma current_upload_loop_le:
  "current (uploadProgress (app r)) \<le> i \<Longrightarrow>
     current (uploadProgress (app (upload_loop i files r))) \<le> i + length files"
proof (induction files arbitrary: i r)
  case Nil
  then show ?case by simp
next
  case (Cons a as)
  from Cons.prems have "current (uploadProgress (app (upload_iteration i a r))) \<le> Suc i"
    by (simp add: current_upload_iteration)
  from Cons.IH [OF this] show ?case by simp
qed

lemma progress_current_sorted:
  "current (uploadProgress (app r)) \<le> i \<Longrightarrow>
     sorted (map (\<lambda>r. current (uploadProgress (app r))) (r # upload_trace i files r))"
proof (induction files arbitrary: i r)
  case Nil
  then show ?case by simp
next
  case (Cons a as)
  let ?r1 = "upload_iteration i a r"
  from Cons.prems have le: "current (uploadProgress (app ?r1)) \<le> Suc i"
    and mono: "current (uploadProgress (app r)) \<le> current (uploadProgress (app ?r1))"
    by (simp_all add: current_upload_iteration)
  from Cons.IH [OF le] mono show ?case by (auto intro: order_trans)
qed

lemma progress_trace_sorted: "sorted (map current (progress_trace st files))"
proof -
  have "current (uploadProgress (app (upload_start st files))) \<le> 0"
    by (simp add: upload_start_def)
  from progress_current_sorted [OF this, of files]
  show ?thesis by (simp add: progress_trace_def comp_def)
qed

lemma progress_reaches_total_iff:
  assumes "files \<noteq> []"
  shows "current (uploadProgress (handleFileUpload st files)) = length files
           \<longleftrightarrow> succeeds (last files)"
proof -
  from assms obtain as a where files: "files = as @ [a]"
    by (metis append_butlast_last_id)
  let ?r = "upload_loop 0 as (upload_start st files)"
  have "current (uploadProgress (app (upload_start st files))) \<le> 0"
    by (simp add: upload_start_def)
  from current_upload_loop_le [OF this, of as]
  have le: "current (uploadProgress (app ?r)) \<le> length as" by simp
  have "current (uploadProgress (handleFileUpload st files))
          = current (uploadProgress (app (upload_iteration (length as) a ?r)))"
    using assms upload_loop_snoc [of 0 as a "upload_start st files"]
    by (simp add: handleFileUpload_def Let_def files)
  also have "\<dots> = (if succeeds a then length as + 1 else current (uploadProgress (app ?r)))"
    by (simp add: current_upload_iteration)
  finally show ?thesis using le by (simp add: files)
qed

text \<open>
  C2 says that the progress counter is incremented once after every attempt,
  success or failure, and equals the total when the batch completes. The code does
  not do so: the counter is set inside the \<^verbatim>\<open>try\<close> block, after the
  \<^verbatim>\<open>await\<close>, so a failed attempt leaves it unchanged. For a batch of one file
  whose extraction is rejected, the counter is 0 of 1 before the loop, 0 of 1 after
  the only iteration, and still 0 of 1 when the batch is complete.
\<close>

theorem handleFileUpload_progress_stuck:
  "progress_trace initial
       [\<lparr>upload_file = \<lparr>name = ''a.pdf'', base64Data = ''JVBERi0=''\<rparr>,
         service_reply = Rejected ''503'', random_uuid = ''u1''\<rparr>]
     = [\<lparr>current = 0, total = 1\<rparr>, \<lparr>current = 0, total = 1\<rparr>]
   \<and> uploadProgress (handleFileUpload initial
       [\<lparr>upload_file = \<lparr>name = ''a.pdf'', base64Data = ''JVBERi0=''\<rparr>,
         service_reply = Rejected ''503'', random_uuid = ''u1''\<rparr>])
     = \<lparr>current = 0, total = 1\<rparr>
   \<and> isProcessing (handleFileUpload initial
       [\<lparr>upload_file = \<lparr>name = ''a.pdf'', base64Data = ''JVBERi0=''\<rparr>,
         service_reply = Rejected ''503'', random_uuid = ''u1''\<rparr>]) = False"
  by (simp add: progress_trace_def handleFileUpload_def upload_start_def upload_iteration_def
        extractPdfMetadata_def initial_def Let_def)

section \<open>Properties of the corpus\<close>

lemma deleteDocument_absent:
  "Some (JStr i) \<notin> set (map (\<lambda>d. get d ''id'') (documents st)) \<Longrightarrow> deleteDocument i st = st"
proof -
  assume "Some (JStr i) \<notin> set (map (\<lambda>d. get d ''id'') (documents st))"
  then have "filter (\<lambda>d. get d ''id'' \<noteq> Some (JStr i)) (documents st) = documents st"
    by (intro filter_True) (force simp: image_iff)
  then show ?thesis by (simp add: deleteDocument_def)
qed

lemma filter_removes_one:
  "distinct (map f xs) \<Longrightarrow> v \<in> set (map f xs) \<Longrightarrow>
     Suc (length (filter (\<lambda>x. f x \<noteq> v) xs)) = length xs"
proof (induction xs)
  case Nil
  then show ?case by simp
next
  case (Cons x xs)
  show ?case
  proof (cases "f x = v")
    case True
    with Cons.prems have "v \<notin> set (map f xs)" by auto
    then have "filter (\<lambda>x. f x \<noteq> v) xs = xs" by (intro filter_True) auto
    with True show ?thesis by simp
  next
    case False
    with Cons show ?thesis by auto
  qed
qed

lemma deleteDocument_present:
  assumes "distinct (map (\<lambda>d. get d ''id'') (documents st))"
    and "Some (JStr i) \<in> set (map (\<lambda>d. get d ''id'') (documents st))"
  shows "Suc (length (documents (deleteDocument i st))) = length (documents st)"
    and "distinct (map (\<lambda>d. get d ''id'') (documents (deleteDocument i st)))"
  using assms filter_removes_one [of "\<lambda>d. get d ''id''" "documents st" "Some (JStr i)"]
  by (simp_all add: deleteDocument_def distinct_map_filter)

text \<open>
  C8 says that no two documents of the corpus share an \<^verbatim>\<open>id\<close> and that deleting by
  an \<^verbatim>\<open>id\<close> removes exactly one document. The code does not ensure it: the parsed
  response is spread after \<^verbatim>\<open>id\<close>, so an \<^verbatim>\<open>id\<close> property of the response
  replaces the generated UUID. For a batch of two files whose responses both carry
  the \<^verbatim>\<open>id\<close> \<^verbatim>\<open>dup\<close>, the corpus holds two documents with the same \<^verbatim>\<open>id\<close>
  although the two UUIDs differ, and deleting by that \<^verbatim>\<open>id\<close> removes both.
\<close>

theorem duplicate_ids_after_upload:
  "map (\<lambda>d. get d ''id'') (documents (handleFileUpload initial
       [\<lparr>upload_file = \<lparr>name = ''a.pdf'', base64Data = ''JVBERi0=''\<rparr>,
         service_reply = Response (Some (JSONText (JObj
           [(''id'', JStr ''dup''), (''sender'', JStr ''Jane''), (''recipient'', JStr ''Bob''),
            (''summary'', JStr ''A note.''), (''content'', JStr ''See you on Monday.'')]))),
         random_uuid = ''u1''\<rparr>,
        \<lparr>upload_file = \<lparr>name = ''b.pdf'', base64Data = ''JVBERi0=''\<rparr>,
         service_reply = Response (Some (JSONText (JObj
           [(''id'', JStr ''dup''), (''sender'', JStr ''Bob''), (''recipient'', JStr ''Jane''),
            (''summary'', JStr ''A reply.''), (''content'', JStr ''Monday is fine.'')]))),
         random_uuid = ''u2''\<rparr>]))
     = [Some (JStr ''dup''), Some (JStr ''dup'')]
   \<and> documents (deleteDocument ''dup'' (handleFileUpload initial
       [\<lparr>upload_file = \<lparr>name = ''a.pdf'', base64Data = ''JVBERi0=''\<rparr>,
         service_reply = Response (Some (JSONText (JObj
           [(''id'', JStr ''dup''), (''sender'', JStr ''Jane''), (''recipient'', JStr ''Bob''),
            (''summary'', JStr ''A note.''), (''content'', JStr ''See you on Monday.'')]))),
         random_uuid = ''u1''\<rparr>,
        \<lparr>upload_file = \<lparr>name = ''b.pdf'', base64Data = ''JVBERi0=''\<rparr>,
         service_reply = Response (Some (JSONText (JObj
           [(''id'', JStr ''dup''), (''sender'', JStr ''Bob''), (''recipient'', JStr ''Jane''),
            (''summary'', JStr ''A reply.''), (''content'', JStr ''Monday is fine.'')]))),
         random_uuid = ''u2''\<rparr>])) = []"
  by (simp add: handleFileUpload_def upload_start_def upload_iteration_def deleteDocument_def
        extractPdfMetadata_def text_or_default_def spread_def get_def initial_def Let_def)

section \<open>Properties of the corpus context builder\<close>

lemma sublist_after: "sublist xs ys \<Longrightarrow> sublist xs (ps @ ys)"
  by (metis append.assoc sublist_def)

lemma join_loop_later:
  "0 < k \<Longrightarrow> join_loop sep k xs R = R @ concat (map ((@) sep) xs)"
  by (induction xs arbitrary: k R) simp_all

lemma join_Cons: "join sep (x # xs) = x @ concat (map ((@) sep) xs)"
  by (simp add: join_def join_loop_later)

lemma doc_block_eq_spec_block: "doc_block d = spec_block ''\<newline>'' d"
  by (simp add: doc_block_def spec_block_def)

lemma spec_context_block_Cons:
  "spec_context_block gap (d # ds)
     = spec_block gap d @ concat (map (\<lambda>e. separator @ spec_block gap e) ds)"
  by (induction ds arbitrary: d) simp_all

lemma context_block_eq_spec: "context_block docs = spec_context_block ''\<newline>'' docs"
proof (cases docs)
  case Nil
  then show ?thesis by (simp add: context_block_def join_def)
next
  case (Cons d ds)
  then show ?thesis
    by (simp add: context_block_def join_Cons spec_context_block_Cons comp_def
          doc_block_eq_spec_block)
qed

lemma spec_context_block_append:
  "xs \<noteq> [] \<Longrightarrow> ys \<noteq> [] \<Longrightarrow>
     spec_context_block gap (xs @ ys)
       = spec_context_block gap xs @ separator @ spec_context_block gap ys"
proof -
  assume "xs \<noteq> []" "ys \<noteq> []"
  then obtain x xs' y ys' where "xs = x # xs'" "ys = y # ys'"
    by (cases xs; cases ys) auto
  then show ?thesis by (simp add: spec_context_block_Cons)
qed

lemma spec_block_in_spec_context_block:
  "d \<in> set docs \<Longrightarrow> sublist (spec_block gap d) (spec_context_block gap docs)"
proof (induction gap docs rule: spec_context_block.induct)
  case (1 gap)
  then show ?case by simp
next
  case (2 gap d')
  then show ?case by simp
next
  case (3 gap d' e ds)
  show ?case
  proof (cases "d = d'")
    case True
    then show ?thesis by simp
  next
    case False
    with 3 have "sublist (spec_block gap d) (spec_context_block gap (e # ds))" by simp
    then have "sublist (spec_block gap d)
                 (spec_block gap d' @ separator @ spec_context_block gap (e # ds))"
      by (intro sublist_after)
    then show ?thesis by simp
  qed
qed

lemma fileName_in_doc_block: "sublist (fileName d) (doc_block d)"
  unfolding doc_block_def by (rule sublist_appendI)

lemma content_in_doc_block: "sublist (content d) (doc_block d)"
  unfolding doc_block_def
  by (rule sublist_after, rule sublist_after, rule sublist_after, rule sublist_after,
      rule sublist_after, rule sublist_after, rule sublist_after, rule sublist_after,
      rule sublist_append_leftI)

text \<open>
  C5, as stated, does not hold: the claim gives the block as the header, one space,
  and \<^verbatim>\<open>Content: <content>\<close>, whereas the code puts a line break between the
  header and \<^verbatim>\<open>Content:\<close>. For a corpus of one document the context that
  \<open>interrogateDocuments\<close> builds differs from the context in the form the claim
  states.
\<close>

theorem context_block_not_space_form:
  "context_block
     [\<lparr>id' = ''u1'', fileName = ''a.pdf'', sender = ''Jane'', recipient = ''Bob'', date = ''2024-01-05'',
        summary = ''A note.'', content = ''See you on Monday.'', topics = [], confidence = 1\<rparr>]
     = ''[Document: a.pdf, Sender: Jane, Recipient: Bob, Date: 2024-01-05]\<newline>Content: See you on Monday.''
   \<and> spec_context_block '' ''
     [\<lparr>id' = ''u1'', fileName = ''a.pdf'', sender = ''Jane'', recipient = ''Bob'', date = ''2024-01-05'',
        summary = ''A note.'', content = ''See you on Monday.'', topics = [], confidence = 1\<rparr>]
     = ''[Document: a.pdf, Sender: Jane, Recipient: Bob, Date: 2024-01-05] Content: See you on Monday.''
   \<and> context_block
     [\<lparr>id' = ''u1'', fileName = ''a.pdf'', sender = ''Jane'', recipient = ''Bob'', date = ''2024-01-05'',
        summary = ''A note.'', content = ''See you on Monday.'', topics = [], confidence = 1\<rparr>]
     \<noteq> spec_context_block '' ''
     [\<lparr>id' = ''u1'', fileName = ''a.pdf'', sender = ''Jane'', recipient = ''Bob'', date = ''2024-01-05'',
        summary = ''A note.'', content = ''See you on Monday.'', topics = [], confidence = 1\<rparr>]"
  by (simp add: context_block_def join_def doc_block_def spec_block_def)

text \<open>
  C5, amended: the context of an empty corpus is the empty string. In general the
  context built by \<open>interrogateDocuments\<close> is the blocks of the documents, one per
  document and in corpus order, with the separator between neighbours, where a
  block is the header
  \<^verbatim>\<open>[Document: <fileName>, Sender: <sender>, Recipient: <recipient>, Date: <date>]\<close>,
  a line break, and \<^verbatim>\<open>Content: <content>\<close>. The whole block of every document, and
  so its file name and its full content, occurs in the context unchanged; the
  context of a corpus in two parts is the context of the first part, the separator,
  and the context of the second; and the system instruction of the request ends
  with the context.
\<close>

theorem context_block_spec:
  "context_block [] = []
   \<and> context_block docs = spec_context_block ''\<newline>'' docs
   \<and> (\<forall>d \<in> set docs. sublist (doc_block d) (context_block docs)
         \<and> sublist (fileName d) (context_block docs)
         \<and> sublist (content d) (context_block docs))
   \<and> (xs \<noteq> [] \<and> ys \<noteq> [] \<longrightarrow>
         context_block (xs @ ys) = context_block xs @ separator @ context_block ys)
   \<and> suffix (context_block docs) (systemInstruction (interrogation_request q docs history))
   \<and> doc_block d = ''[Document: '' @ fileName d @ '', Sender: '' @ sender d
         @ '', Recipient: '' @ recipient d @ '', Date: '' @ date d @ '']''
         @ ''\<newline>'' @ ''Content: '' @ content d"
proof -
  have 6: "doc_block d = ''[Document: '' @ fileName d @ '', Sender: '' @ sender d
         @ '', Recipient: '' @ recipient d @ '', Date: '' @ date d @ '']''
         @ ''\<newline>'' @ ''Content: '' @ content d"
    by (simp add: doc_block_def)
  have 1: "context_block [] = []" by (simp add: context_block_def join_def)
  have 3: "sublist (doc_block d) (context_block docs)
         \<and> sublist (fileName d) (context_block docs)
         \<and> sublist (content d) (context_block docs)" if "d \<in> set docs" for d
  proof -
    from that have b: "sublist (doc_block d) (context_block docs)"
      by (simp add: context_block_eq_spec doc_block_eq_spec_block
            spec_block_in_spec_context_block)
    from fileName_in_doc_block b have "sublist (fileName d) (context_block docs)"
      by (rule sublist_order.order.trans)
    moreover from content_in_doc_block b have "sublist (content d) (context_block docs)"
      by (rule sublist_order.order.trans)
    ultimately show ?thesis using b by simp
  qed
  have 4: "xs \<noteq> [] \<and> ys \<noteq> [] \<longrightarrow>
         context_block (xs @ ys) = context_block xs @ separator @ context_block ys"
    by (simp add: context_block_eq_spec spec_context_block_append)
  have 5: "suffix (context_block docs) (systemInstruction (interrogation_request q docs history))"
    unfolding interrogation_request_def systemPrompt_def
    by (simp add: suffix_def)
  from 1 context_block_eq_spec 3 4 5 6 show ?thesis by blast
qed

text \<open>C5, amended, at a corpus of two documents.\<close>

theorem context_block_spec_witness:
  "let d1 = \<lparr>id' = ''u1'', fileName = ''a.pdf'', sender = ''Jane'', recipient = ''Bob'', date = ''2024-01-05'',
            summary = ''A note.'', content = ''See you on Monday.'', topics = [], confidence = 1\<rparr>;
       d2 = \<lparr>id' = ''u2'', fileName = ''b.pdf'', sender = ''Bob'', recipient = ''Jane'', date = ''2024-01-06'',
            summary = ''A reply.'', content = ''Monday is fine.'', topics = [], confidence = 1\<rparr>
   in context_block [d1, d2]
        = ''[Document: a.pdf, Sender: Jane, Recipient: Bob, Date: 2024-01-05]\<newline>Content: See you on Monday.''
          @ ''\<newline>\<newline>---\<newline>\<newline>''
          @ ''[Document: b.pdf, Sender: Bob, Recipient: Jane, Date: 2024-01-06]\<newline>Content: Monday is fine.''
      \<and> d1 \<in> set [d1, d2]
      \<and> sublist ''See you on Monday.'' (context_block [d1, d2])
      \<and> sublist ''b.pdf'' (context_block [d1, d2])"
  using context_block_spec [of
          "[\<lparr>id' = ''u1'', fileName = ''a.pdf'', sender = ''Jane'', recipient = ''Bob'', date = ''2024-01-05'',
            summary = ''A note.'', content = ''See you on Monday.'', topics = [], confidence = 1\<rparr>,
            \<lparr>id' = ''u2'', fileName = ''b.pdf'', sender = ''Bob'', recipient = ''Jane'', date = ''2024-01-06'',
            summary = ''A reply.'', content = ''Monday is fine.'', topics = [], confidence = 1\<rparr>]"
          "[\<lparr>id' = ''u1'', fileName = ''a.pdf'', sender = ''Jane'', recipient = ''Bob'', date = ''2024-01-05'',
            summary = ''A note.'', content = ''See you on Monday.'', topics = [], confidence = 1\<rparr>]"
          "[\<lparr>id' = ''u2'', fileName = ''b.pdf'', sender = ''Bob'', recipient = ''Jane'', date = ''2024-01-06'',
            summary = ''A reply.'', content = ''Monday is fine.'', topics = [], confidence = 1\<rparr>]"]
  by (simp add: context_block_def join_def doc_block_def spec_block_def separator_def)

section \<open>Properties of the interrogation engine\<close>

text \<open>
  C6: when the service returns an empty answer (or none), \<open>interrogateDocuments\<close>
  returns the fixed fallback message, which is not empty; and whatever the service
  does, an answer that \<open>interrogateDocuments\<close> returns is never the empty string.
\<close>

theorem interrogateDocuments_never_empty:
  "interrogateDocuments q docs history (Response (Some [])) = Inr fallback_answer
   \<and> interrogateDocuments q docs history (Response None) = Inr fallback_answer
   \<and> fallback_answer \<noteq> []
   \<and> (interrogateDocuments q docs history resp = Inr answer \<longrightarrow> answer \<noteq> [])"
  by (auto simp: interrogateDocuments_def fallback_answer_def
           split: response.splits option.splits if_splits)

text \<open>C6 at a response with an answer.\<close>

theorem interrogateDocuments_never_empty_witness:
  "interrogateDocuments ''What did Jane say?'' [] [] (Response (Some ''Nothing.'')) = Inr ''Nothing.''
   \<and> ''Nothing.'' \<noteq> []"
  using interrogateDocuments_never_empty
    [of "''What did Jane say?''" "[]" "[]" "Response (Some ''Nothing.'')" "''Nothing.''"]
  by (simp add: interrogateDocuments_def)

text \<open>
  C7: when a message is sent (the query is not blank and no request is pending) and
  the interrogation fails, the conversation afterwards is the one before followed
  by the user's turn alone: no assistant turn is appended. The corpus is unchanged
  and the loading flag is cleared.
\<close>

theorem handleSendMessage_failure:
  assumes "trim (query st) \<noteq> []" and "\<not> isChatLoading st"
    and "interrogateDocuments (query st) (documents st)
           (map (\<lambda>m. (role m, text' m)) (chatMessages st)) resp = Inl e"
  shows "chatMessages (handleSendMessage st t1 resp t2)
           = chatMessages st @ [\<lparr>role = user, text' = query st, timestamp = t1\<rparr>]
       \<and> documents (handleSendMessage st t1 resp t2) = documents st
       \<and> isChatLoading (handleSendMessage st t1 resp t2) = False"
  using assms by (simp add: handleSendMessage_def Let_def)

text \<open>C7 at a first question whose request the service rejects.\<close>

theorem handleSendMessage_failure_witness:
  "trim (query (initial\<lparr>query := ''What did Jane say?''\<rparr> :: ExtractedDocument App)) \<noteq> []
   \<and> \<not> isChatLoading (initial\<lparr>query := ''What did Jane say?''\<rparr> :: ExtractedDocument App)
   \<and> interrogateDocuments ''What did Jane say?'' [] [] (Rejected ''503'') = Inl (ServiceError ''503'')
   \<and> chatMessages (handleSendMessage (initial\<lparr>query := ''What did Jane say?''\<rparr>) 1000 (Rejected ''503'') 2000)
        = [\<lparr>role = user, text' = ''What did Jane say?'', timestamp = 1000\<rparr>]"
proof -
  let ?st = "initial\<lparr>query := ''What did Jane say?''\<rparr> :: ExtractedDocument App"
  have q: "trim (query ?st) \<noteq> []"
    by (simp add: initial_def trim_def is_whitespace_def)
  have l: "\<not> isChatLoading ?st" by (simp add: initial_def)
  have i: "interrogateDocuments (query ?st) (documents ?st)
             (map (\<lambda>m. (role m, text' m)) (chatMessages ?st)) (Rejected ''503'') = Inl (ServiceError ''503'')"
    by (simp add: initial_def interrogateDocuments_def)
  from handleSendMessage_failure [OF q l i, of 1000 2000] q l i
  show ?thesis by (simp add: initial_def)
qed

section \<open>Properties of the export\<close>

text \<open>
  C9, as stated, does not hold: the rendered text has no place for the topics (nor
  for the confidence). A document whose only topic is \<^verbatim>\<open>budget\<close>, a word that
  occurs in none of its other fields, is exported without that word.
\<close>

theorem download_text_omits_topics:
  "\<not> sublist ''budget''
       (download_text \<lparr>id' = ''u1'', fileName = ''a.pdf'', sender = ''Jane'', recipient = ''Bob'',
          date = ''2024-01-05'', summary = ''A note.'', content = ''See you on Monday.'',
          topics = [''budget''], confidence = 1\<rparr>)"
proof
  assume "sublist ''budget''
       (download_text \<lparr>id' = ''u1'', fileName = ''a.pdf'', sender = ''Jane'', recipient = ''Bob'',
          date = ''2024-01-05'', summary = ''A note.'', content = ''See you on Monday.'',
          topics = [''budget''], confidence = 1\<rparr>)"
  then have "set ''budget'' \<subseteq> set (download_text \<lparr>id' = ''u1'', fileName = ''a.pdf'', sender = ''Jane'', recipient = ''Bob'',
          date = ''2024-01-05'', summary = ''A note.'', content = ''See you on Monday.'',
          topics = [''budget''], confidence = 1\<rparr>)"
    by (rule set_mono_sublist)
  then show False by (simp add: download_text_def)
qed

text \<open>
  C9, amended: the rendered text contains the file name, the sender, the recipient,
  the date, the summary and the content of the document, each as an unmodified
  substring; it is the text of the file offered for download; and it does not
  depend on the id, the topics or the confidence.
\<close>

theorem download_text_fields:
  "sublist (fileName doc) (download_text doc)
   \<and> sublist (sender doc) (download_text doc)
   \<and> sublist (recipient doc) (download_text doc)
   \<and> sublist (date doc) (download_text doc)
   \<and> sublist (summary doc) (download_text doc)
   \<and> sublist (content doc) (download_text doc)
   \<and> blob (downloadDocument doc) = download_text doc
   \<and> download_text (doc\<lparr>id' := i, topics := ts, confidence := c\<rparr>) = download_text doc"
proof -
  have 1: "sublist (fileName doc) (download_text doc)"
    unfolding download_text_def by (rule sublist_appendI)
  have 2: "sublist (sender doc) (download_text doc)"
    unfolding download_text_def
    by (rule sublist_after, rule sublist_after, rule sublist_appendI)
  have 3: "sublist (recipient doc) (download_text doc)"
    unfolding download_text_def
    by (rule sublist_after, rule sublist_after, rule sublist_after, rule sublist_after,
        rule sublist_appendI)
  have 4: "sublist (date doc) (download_text doc)"
    unfolding download_text_def
    by (rule sublist_after, rule sublist_after, rule sublist_after, rule sublist_after,
        rule sublist_after, rule sublist_after, rule sublist_appendI)
  have 5: "sublist (summary doc) (download_text doc)"
    unfolding download_text_def
    by (rule sublist_after, rule sublist_after, rule sublist_after, rule sublist_after,
        rule sublist_after, rule sublist_after, rule sublist_after, rule sublist_after,
        rule sublist_appendI)
  have 6: "sublist (content doc) (download_text doc)"
    unfolding download_text_def
    by (rule sublist_after, rule sublist_after, rule sublist_after, rule sublist_after,
        rule sublist_after, rule sublist_after, rule sublist_after, rule sublist_after,
        rule sublist_after, rule sublist_after, rule sublist_append_leftI)
  have 7: "blob (downloadDocument doc) = download_text doc"
    by (simp add: downloadDocument_def)
  have 8: "download_text (doc\<lparr>id' := i, topics := ts, confidence := c\<rparr>) = download_text doc"
    by (simp add: download_text_def)
  from 1 2 3 4 5 6 7 8 show ?thesis by blast
qed


end
